theory Spec2Isabelle
  imports Main "HOL-Library.DAList"
begin

section \<open>The legacy node reconciler of kops-controller\<close>

text \<open>
  A shallow embedding of \<^verbatim>\<open>cmd/kops-controller/controllers/legacy_node_controller.go\<close>.

  A Go \<^verbatim>\<open>map[string]V\<close> is a \<open>(string, V) alist\<close>: a finite map with distinct keys
  together with one enumeration of its entries. A \<^verbatim>\<open>range\<close> loop is a \<open>fold\<close> over that
  enumeration; as every alist is allowed, a theorem about all alists holds for every
  iteration order the Go runtime may choose.  The set \<^verbatim>\<open>map[string]struct{}\<close> is a
  \<open>(string, unit) alist\<close>, and \<^verbatim>\<open>len(m)\<close> is \<open>size m\<close>.

  Everything the reconciler calls outside this file (the API client, the VFS cache, the
  manifest decoder, the identity provider, the label policy and the patch call) is a field
  of the record \<open>LegacyNodeReconciler\<close>. The calls that perform I/O take and return a world
  \<open>'w\<close>, so two calls of the same collaborator may answer differently; every such call is
  also appended to the list \<open>calls\<close> of the state. Logging (klog) is left out.
\<close>

subsection \<open>Data\<close>

text \<open>\<^verbatim>\<open>corev1.Node\<close>, restricted to the fields the reconciler reads:
  \<^verbatim>\<open>node.Name\<close>, \<^verbatim>\<open>node.Labels\<close> and \<^verbatim>\<open>node.Spec.ProviderID\<close>.\<close>

record Node =
  Name :: string
  Labels :: "(string, string) alist"
  ProviderID :: string

text \<open>\<^verbatim>\<open>nodeidentity.LegacyIdentifyInfo\<close>, the fields read here.\<close>

record LegacyIdentifyInfo =
  InstanceGroup :: string
  InstanceLifecycle :: string

text \<open>Modelled from the spec: \<^verbatim>\<open>vfs.Path\<close> and its \<^verbatim>\<open>Join\<close> are declared in \<^verbatim>\<open>util/pkg/vfs\<close>,
  which is not among the sources. The spec addresses manifests by hierarchical paths rooted
  at the configured base: a path is the list of its components, and \<^verbatim>\<open>Join\<close> appends
  components.\<close>

type_synonym Path = "string list"

definition Join :: "Path \<Rightarrow> string list \<Rightarrow> Path" where
  "Join p cs = p @ cs"

text \<open>The \<^verbatim>\<open>runtime.Object\<close> that \<^verbatim>\<open>kopscodecs.Decode\<close> returns: a cluster, an instance
  group, or an object of another registered type (carrying the name of its Go type).\<close>

datatype ('c, 'g) Object = ClusterObject 'c | InstanceGroupObject 'g | OtherObject string

text \<open>What \<^verbatim>\<open>%T\<close> prints for a decoded object.\<close>

fun typeOf :: "('c, 'g) Object \<Rightarrow> string" where
  "typeOf (ClusterObject c) = ''*kops.Cluster''"
| "typeOf (InstanceGroupObject g) = ''*kops.InstanceGroup''"
| "typeOf (OtherObject t) = t"

text \<open>A Go \<^verbatim>\<open>error\<close>: either the error value of an external collaborator, returned as it
  is, or the result of \<^verbatim>\<open>fmt.Errorf\<close>, kept as the format string and the arguments, so that
  what a message mentions can be read off.\<close>

datatype 'e error = External 'e | Errorf string "'e fmt_arg list"
and 'e fmt_arg = AString string | APath Path | AError "'e error" | AType string

text \<open>The calls to external collaborators that a pass performs, in order.\<close>

datatype call =
    CallGet string
  | CallRead Path
  | CallIdentifyNode Node
  | CallPatch Node "(string, string) alist" "(string, unit) alist"

record 'w state =
  world :: 'w
  calls :: "call list"

text \<open>The receiver \<^verbatim>\<open>r *LegacyNodeReconciler\<close> with its collaborators
  (\<^verbatim>\<open>r.client.Get\<close>, \<^verbatim>\<open>r.identifier.IdentifyNode\<close>, \<^verbatim>\<open>r.cache.Read\<close>, \<^verbatim>\<open>r.configBase\<close>), and
  the functions of other packages that the file calls (\<^verbatim>\<open>apierrors.IsNotFound\<close>,
  \<^verbatim>\<open>kopscodecs.Decode\<close>, \<^verbatim>\<open>nodelabels.BuildNodeLabels\<close>, \<^verbatim>\<open>patchNodeLabels\<close>), none of which is
  defined in this file: they are parameters.\<close>

record ('w, 'e, 'c, 'g) LegacyNodeReconciler =
  client_Get :: "'w \<Rightarrow> string \<Rightarrow> ('e + Node) \<times> 'w"
  IsNotFound :: "'e \<Rightarrow> bool"
  cache_Read :: "'w \<Rightarrow> Path \<Rightarrow> ('e + string) \<times> 'w"
  kopscodecs_Decode :: "string \<Rightarrow> 'e + ('c, 'g) Object"
  identifier_IdentifyNode :: "'w \<Rightarrow> Node \<Rightarrow> ('e + LegacyIdentifyInfo) \<times> 'w"
  BuildNodeLabels :: "'c \<Rightarrow> 'g \<Rightarrow> 'e + (string, string) alist"
  patchNodeLabels ::
    "'w \<Rightarrow> Node \<Rightarrow> (string, string) alist \<Rightarrow> (string, unit) alist \<Rightarrow> 'e option \<times> 'w"
  configBase :: Path

subsection \<open>Constants of other packages\<close>

text \<open>Modelled from the spec: the four managed role-label keys
  \<^verbatim>\<open>nodelabels.RoleLabelMaster16\<close>, \<^verbatim>\<open>RoleLabelAPIServer16\<close>, \<^verbatim>\<open>RoleLabelNode16\<close> and
  \<^verbatim>\<open>RoleLabelControlPlane20\<close> are declared in \<^verbatim>\<open>pkg/nodelabels\<close>, which is not among the
  sources. The spec calls them the fixed enumerated set of managed role-label keys of the
  current and the historical generations; the values below are the role-label keys of the
  role namespace \<^verbatim>\<open>node-role.kubernetes.io\<close> that the four identifiers name.\<close>

definition RoleLabelMaster16 :: string where
  "RoleLabelMaster16 = ''node-role.kubernetes.io/master''"

text \<open>Modelled from the spec: the managed role-label key of API-server nodes, as above.\<close>

definition RoleLabelAPIServer16 :: string where
  "RoleLabelAPIServer16 = ''node-role.kubernetes.io/api-server''"

text \<open>Modelled from the spec: the managed role-label key of worker nodes, as above.\<close>

definition RoleLabelNode16 :: string where
  "RoleLabelNode16 = ''node-role.kubernetes.io/node''"

text \<open>Modelled from the spec: the managed role-label key of control-plane nodes of the
  current generation, as above.\<close>

definition RoleLabelControlPlane20 :: string where
  "RoleLabelControlPlane20 = ''node-role.kubernetes.io/control-plane''"

text \<open>The keys of the \<^verbatim>\<open>case\<close> of line 139, as a set.\<close>

definition managedKeys :: "string set" where
  "managedKeys =
     {RoleLabelMaster16, RoleLabelAPIServer16, RoleLabelNode16, RoleLabelControlPlane20}"

text \<open>Modelled from the spec: \<^verbatim>\<open>registry.PathClusterCompleted\<close>, the fixed well-known
  name of the cluster manifest below the configuration base, is declared in
  \<^verbatim>\<open>pkg/apis/kops/registry\<close>, which is not among the sources.\<close>

definition PathClusterCompleted :: string where
  "PathClusterCompleted = ''cluster-completed.spec''"

subsection \<open>External calls, recorded\<close>

definition do_Get ::
  "('w, 'e, 'c, 'g) LegacyNodeReconciler \<Rightarrow> string \<Rightarrow> 'w state \<Rightarrow> ('e + Node) \<times> 'w state" where
  "do_Get r name s =
     (case client_Get r (world s) name of
        (res, w) \<Rightarrow> (res, \<lparr>world = w, calls = calls s @ [CallGet name]\<rparr>))"

definition do_Read ::
  "('w, 'e, 'c, 'g) LegacyNodeReconciler \<Rightarrow> Path \<Rightarrow> 'w state \<Rightarrow> ('e + string) \<times> 'w state" where
  "do_Read r p s =
     (case cache_Read r (world s) p of
        (res, w) \<Rightarrow> (res, \<lparr>world = w, calls = calls s @ [CallRead p]\<rparr>))"

definition do_IdentifyNode ::
  "('w, 'e, 'c, 'g) LegacyNodeReconciler \<Rightarrow> Node \<Rightarrow> 'w state
     \<Rightarrow> ('e + LegacyIdentifyInfo) \<times> 'w state" where
  "do_IdentifyNode r node s =
     (case identifier_IdentifyNode r (world s) node of
        (res, w) \<Rightarrow> (res, \<lparr>world = w, calls = calls s @ [CallIdentifyNode node]\<rparr>))"

definition do_patchNodeLabels ::
  "('w, 'e, 'c, 'g) LegacyNodeReconciler \<Rightarrow> Node \<Rightarrow> (string, string) alist
     \<Rightarrow> (string, unit) alist \<Rightarrow> 'w state \<Rightarrow> 'e option \<times> 'w state" where
  "do_patchNodeLabels r node updateLabels deleteLabels s =
     (case patchNodeLabels r (world s) node updateLabels deleteLabels of
        (res, w) \<Rightarrow>
          (res, \<lparr>world = w, calls = calls s @ [CallPatch node updateLabels deleteLabels]\<rparr>))"

subsection \<open>Loading manifests\<close>

text \<open>\<^verbatim>\<open>loadCluster\<close>, lines 213 to 229.\<close>

definition loadCluster ::
  "('w, 'e, 'c, 'g) LegacyNodeReconciler \<Rightarrow> Path \<Rightarrow> 'w state \<Rightarrow> ('e error + 'c) \<times> 'w state" where
  "loadCluster r p s =
     (case do_Read r p s of
        (Inl err, s1) \<Rightarrow>
          (Inl (Errorf ''error loading Cluster %q: %v'' [APath p, AError (External err)]), s1)
      | (Inr b, s1) \<Rightarrow>
          (case kopscodecs_Decode r b of
             Inl err \<Rightarrow>
               (Inl (Errorf ''error parsing Cluster %q: %v'' [APath p, AError (External err)]), s1)
           | Inr obj \<Rightarrow>
               (case obj of
                  ClusterObject cluster \<Rightarrow> (Inr cluster, s1)
                | _ \<Rightarrow>
                  (Inl (Errorf ''unexpected object type for Cluster %q: %T''
                          [APath p, AType (typeOf obj)]), s1))))"

text \<open>\<^verbatim>\<open>loadNamedInstanceGroup\<close>, lines 232 to 252.\<close>

definition loadNamedInstanceGroup ::
  "('w, 'e, 'c, 'g) LegacyNodeReconciler \<Rightarrow> string \<Rightarrow> 'w state \<Rightarrow> ('e error + 'g) \<times> 'w state" where
  "loadNamedInstanceGroup r name s =
     (let p = Join (configBase r) [''instancegroup'', name] in
      case do_Read r p s of
        (Inl err, s1) \<Rightarrow>
          (Inl (Errorf ''error loading InstanceGroup %q: %v'' [APath p, AError (External err)]), s1)
      | (Inr b, s1) \<Rightarrow>
          (case kopscodecs_Decode r b of
             Inl err \<Rightarrow>
               (Inl (Errorf ''error parsing %s: %w'' [APath p, AError (External err)]), s1)
           | Inr obj \<Rightarrow>
               (case obj of
                  InstanceGroupObject instanceGroup \<Rightarrow> (Inr instanceGroup, s1)
                | _ \<Rightarrow>
                  (Inl (Errorf ''unexpected type, expected InstanceGroup, got %T''
                          [AType (typeOf obj)]), s1))))"

text \<open>\<^verbatim>\<open>getClusterForNode\<close>, lines 167 to 174.\<close>

definition getClusterForNode ::
  "('w, 'e, 'c, 'g) LegacyNodeReconciler \<Rightarrow> Node \<Rightarrow> 'w state \<Rightarrow> ('e error + 'c) \<times> 'w state" where
  "getClusterForNode r node s =
     (let clusterPath = Join (configBase r) [PathClusterCompleted] in
      case loadCluster r clusterPath s of
        (Inl err, s1) \<Rightarrow> (Inl err, s1)
      | (Inr cluster, s1) \<Rightarrow> (Inr cluster, s1))"

subsection \<open>Identity\<close>

text \<open>\<^verbatim>\<open>getInstanceLifecycle\<close>, lines 177 to 184.\<close>

definition getInstanceLifecycle ::
  "('w, 'e, 'c, 'g) LegacyNodeReconciler \<Rightarrow> Node \<Rightarrow> 'w state \<Rightarrow> ('e error + string) \<times> 'w state" where
  "getInstanceLifecycle r node s =
     (case do_IdentifyNode r node s of
        (Inl err, s1) \<Rightarrow>
          (Inl (Errorf ''error identifying node %q: %v''
                  [AString (Name node), AError (External err)]), s1)
      | (Inr identity, s1) \<Rightarrow> (Inr (InstanceLifecycle identity), s1))"

text \<open>Reading a Go map at a key that is absent gives the zero value, the empty string.\<close>

definition index :: "(string, string) alist \<Rightarrow> string \<Rightarrow> string" where
  "index m k = (case DAList.lookup m k of None \<Rightarrow> [] | Some v \<Rightarrow> v)"

text \<open>\<^verbatim>\<open>getInstanceGroupForNode\<close>, lines 187 to 210.\<close>

definition getInstanceGroupForNode ::
  "('w, 'e, 'c, 'g) LegacyNodeReconciler \<Rightarrow> Node \<Rightarrow> 'w state \<Rightarrow> ('e error + 'g) \<times> 'w state" where
  "getInstanceGroupForNode r node s =
     (let instanceGroupName = index (Labels node) ''kops.k8s.io/instancegroup'' in
      if instanceGroupName = [] then
        (let providerID = ProviderID node in
         if providerID = [] then
           (Inl (Errorf ''node providerID not set for node %q'' [AString (Name node)]), s)
         else
           (case do_IdentifyNode r node s of
              (Inl err, s1) \<Rightarrow>
                (Inl (Errorf ''error identifying node %q: %v''
                        [AString (Name node), AError (External err)]), s1)
            | (Inr identity, s1) \<Rightarrow>
                if InstanceGroup identity = [] then
                  (Inl (Errorf ''node %q did not have an associate instance group''
                          [AString (Name node)]), s1)
                else loadNamedInstanceGroup r (InstanceGroup identity) s1))
      else loadNamedInstanceGroup r instanceGroupName s)"

subsection \<open>The reconcile pass\<close>

text \<open>\<^verbatim>\<open>fmt.Sprintf("node-role.kubernetes.io/%s-worker", lifecycle)\<close>, line 124.\<close>

definition lifecycleLabel :: "string \<Rightarrow> string" where
  "lifecycleLabel lifecycle = ''node-role.kubernetes.io/'' @ lifecycle @ ''-worker''"

text \<open>Lines 123 to 125: the label added for a non-empty lifecycle.\<close>

definition addLifecycleLabel ::
  "string \<Rightarrow> (string, string) alist \<Rightarrow> (string, string) alist" where
  "addLifecycleLabel lifecycle labels =
     (if length lifecycle > 0 then DAList.update (lifecycleLabel lifecycle) ''true'' labels
      else labels)"

text \<open>Lines 127 to 133: the loop over the desired labels that fills \<^verbatim>\<open>updateLabels\<close>.\<close>

definition updateLabelsOf ::
  "(string, string) alist \<Rightarrow> (string, string) alist \<Rightarrow> (string, string) alist" where
  "updateLabelsOf nodeLabels labels =
     fold (\<lambda>(k, v) updateLabels.
             case DAList.lookup nodeLabels k of
               None \<Rightarrow> DAList.update k v updateLabels
             | Some actual \<Rightarrow>
                 if actual \<noteq> v then DAList.update k v updateLabels else updateLabels)
          (DAList.impl_of labels) DAList.empty"

text \<open>Lines 135 to 144: the loop over the node's labels that fills \<^verbatim>\<open>deleteLabels\<close>.\<close>

definition deleteLabelsOf ::
  "(string, string) alist \<Rightarrow> (string, string) alist \<Rightarrow> (string, unit) alist" where
  "deleteLabelsOf nodeLabels labels =
     fold (\<lambda>(k, v) deleteLabels.
             if k = RoleLabelMaster16 \<or> k = RoleLabelAPIServer16 \<or> k = RoleLabelNode16
                \<or> k = RoleLabelControlPlane20
             then (case DAList.lookup labels k of
                     None \<Rightarrow> DAList.update k () deleteLabels
                   | Some found \<Rightarrow> deleteLabels)
             else deleteLabels)
          (DAList.impl_of nodeLabels) DAList.empty"

text \<open>\<^verbatim>\<open>Reconcile\<close>, lines 88 to 157, in its two stages. The \<^verbatim>\<open>ctrl.Result\<close> returned is the
  zero value on every path, so the result of a pass is the error alone: \<open>None\<close> is
  \<^verbatim>\<open>nil\<close>.

  The first stage, lines 89 to 125, fetches the node and computes the desired labels; it
  either returns from \<^verbatim>\<open>Reconcile\<close> (\<open>Inl\<close>, with the result) or goes on with the node and
  the desired labels (\<open>Inr\<close>).\<close>

definition Reconcile_desired ::
  "('w, 'e, 'c, 'g) LegacyNodeReconciler \<Rightarrow> string \<Rightarrow> 'w state
     \<Rightarrow> ('e error option + Node \<times> (string, string) alist) \<times> 'w state" where
  "Reconcile_desired r req s =
     (case do_Get r req s of
        (Inl err, s1) \<Rightarrow>
          if IsNotFound r err then (Inl None, s1) else (Inl (Some (External err)), s1)
      | (Inr node, s1) \<Rightarrow>
     (case getClusterForNode r node s1 of
        (Inl err, s2) \<Rightarrow>
          (Inl (Some (Errorf ''unable to load cluster object for node %s: %v''
                        [AString (Name node), AError err])), s2)
      | (Inr cluster, s2) \<Rightarrow>
     (case getInstanceGroupForNode r node s2 of
        (Inl err, s3) \<Rightarrow>
          (Inl (Some (Errorf ''unable to load instance group object for node %s: %v''
                        [AString (Name node), AError err])), s3)
      | (Inr ig, s3) \<Rightarrow>
     (case BuildNodeLabels r cluster ig of
        Inl err \<Rightarrow>
          (Inl (Some (Errorf ''error building node labels for node %q: %w''
                        [AString (Name node), AError (External err)])), s3)
      | Inr labels \<Rightarrow>
     (case getInstanceLifecycle r node s3 of
        (Inl err, s4) \<Rightarrow>
          (Inl (Some (Errorf ''unable to get instance lifecycle %s: %v''
                        [AString (Name node), AError err])), s4)
      | (Inr lifecycle, s4) \<Rightarrow>
          (Inr (node, addLifecycleLabel lifecycle labels), s4))))))"

text \<open>The second stage, lines 127 to 156: the diff, the short-circuit and the patch.\<close>

definition Reconcile_diff ::
  "('w, 'e, 'c, 'g) LegacyNodeReconciler \<Rightarrow> Node \<Rightarrow> (string, string) alist \<Rightarrow> 'w state
     \<Rightarrow> 'e error option \<times> 'w state" where
  "Reconcile_diff r node labels s =
     (let updateLabels = updateLabelsOf (Labels node) labels;
          deleteLabels = deleteLabelsOf (Labels node) labels
      in if size updateLabels = 0 \<and> size deleteLabels = 0 then (None, s)
         else (case do_patchNodeLabels r node updateLabels deleteLabels s of
                 (Some err, s1) \<Rightarrow> (Some (External err), s1)
               | (None, s1) \<Rightarrow> (None, s1)))"

definition Reconcile ::
  "('w, 'e, 'c, 'g) LegacyNodeReconciler \<Rightarrow> string \<Rightarrow> 'w state \<Rightarrow> 'e error option \<times> 'w state" where
  "Reconcile r req s =
     (case Reconcile_desired r req s of
        (Inl result, s1) \<Rightarrow> (result, s1)
      | (Inr (node, labels), s1) \<Rightarrow> Reconcile_diff r node labels s1)"

subsection \<open>Observations on a pass\<close>

text \<open>Modelled from the spec: the effect of the patch on the node's labels.
  \<^verbatim>\<open>patchNodeLabels\<close> and the API server that applies the patch are not among the sources.
  The spec (sections 4.4 and 6) has the patch set the labels of the update set, remove the
  keys of the delete set and leave every label not mentioned untouched.\<close>

definition applyPatch ::
  "(string, string) alist \<Rightarrow> (string, string) alist \<Rightarrow> (string, unit) alist
     \<Rightarrow> string \<Rightarrow> string option" where
  "applyPatch nodeLabels setLabels deleteLabels =
     (\<lambda>k. if DAList.lookup deleteLabels k \<noteq> None then None
          else (case DAList.lookup setLabels k of
                  Some v \<Rightarrow> Some v
                | None \<Rightarrow> DAList.lookup nodeLabels k))"

text \<open>Counting the calls of one kind in the record of a pass.\<close>

fun isIdentify :: "call \<Rightarrow> bool" where
  "isIdentify (CallIdentifyNode n) = True"
| "isIdentify c = False"

fun isPatch :: "call \<Rightarrow> bool" where
  "isPatch (CallPatch n u d) = True"
| "isPatch c = False"

fun isRead :: "call \<Rightarrow> bool" where
  "isRead (CallRead p) = True"
| "isRead c = False"

definition identifyCalls :: "call list \<Rightarrow> nat" where
  "identifyCalls cs = length (filter isIdentify cs)"

definition patchCalls :: "call list \<Rightarrow> nat" where
  "patchCalls cs = length (filter isPatch cs)"

definition readCalls :: "call list \<Rightarrow> nat" where
  "readCalls cs = length (filter isRead cs)"

text \<open>The paths that an error carries as arguments of its messages.\<close>

primrec pathsOf :: "'e error \<Rightarrow> Path list"
  and pathsOfArg :: "'e fmt_arg \<Rightarrow> Path list" where
  "pathsOf (External e) = []"
| "pathsOf (Errorf f args) = concat (map pathsOfArg args)"
| "pathsOfArg (AString x) = []"
| "pathsOfArg (APath p) = [p]"
| "pathsOfArg (AError e) = pathsOf e"
| "pathsOfArg (AType t) = []"

subsection \<open>A small instance\<close>

text \<open>A reconciler over a toy store, for evaluating the definitions: the world counts the
  calls of the identity provider; the bytes stored at a path are its last component; the
  label policy gives a worker node its role label and the label of its group.\<close>

definition exampleLabels :: "string \<Rightarrow> string \<Rightarrow> string + (string, string) alist" where
  "exampleLabels cluster ig =
     Inr (DAList.update RoleLabelNode16 []
           (DAList.update ''kops.k8s.io/instancegroup'' ig DAList.empty))"

definition exampleDecode :: "string \<Rightarrow> string + (string, string) Object" where
  "exampleDecode b =
     (if b = PathClusterCompleted then Inr (ClusterObject ''example.k8s.local'')
      else Inr (InstanceGroupObject b))"

definition exampleIdentify :: "nat \<Rightarrow> Node \<Rightarrow> (string + LegacyIdentifyInfo) \<times> nat" where
  "exampleIdentify w node =
     (Inr \<lparr>InstanceGroup = ''nodes'', InstanceLifecycle = ''spot''\<rparr>, Suc w)"

definition exampleReconciler ::
  "Node \<Rightarrow> (string \<Rightarrow> string + (string, string) Object)
     \<Rightarrow> (nat \<Rightarrow> Node \<Rightarrow> (string + LegacyIdentifyInfo) \<times> nat)
     \<Rightarrow> (nat, string, string, string) LegacyNodeReconciler" where
  "exampleReconciler node decode identify =
     \<lparr>client_Get = (\<lambda>w name. (if name = Name node then Inr node else Inl ''not found'', w)),
      IsNotFound = (\<lambda>e. e = ''not found''),
      cache_Read = (\<lambda>w p. (Inr (last p), w)),
      kopscodecs_Decode = decode,
      identifier_IdentifyNode = identify,
      BuildNodeLabels = exampleLabels,
      patchNodeLabels = (\<lambda>w n u d. (None, w)),
      configBase = [''memfs://clusters'', ''example.k8s.local'']\<rparr>"

definition exampleNode :: Node where
  "exampleNode =
     \<lparr>Name = ''node-1'', Labels = DAList.empty, ProviderID = ''aws:///us-test-1a/i-0123''\<rparr>"

definition initial :: "nat state" where
  "initial = \<lparr>world = 0, calls = []\<rparr>"

text \<open>The labels of a node that was a control-plane node of group \<open>old\<close> and carries a
  label of its owner, and the labels the toy policy wants for a worker of group \<open>nodes\<close>.\<close>

definition staleLabels :: "(string, string) alist" where
  "staleLabels =
     DAList.update RoleLabelMaster16 []
       (DAList.update ''team'' ''infra''
         (DAList.update ''kops.k8s.io/instancegroup'' ''old'' DAList.empty))"

definition nodesLabels :: "(string, string) alist" where
  "nodesLabels =
     DAList.update RoleLabelNode16 []
       (DAList.update ''kops.k8s.io/instancegroup'' ''nodes'' DAList.empty)"

text \<open>A node that carries the stale labels, and the labels of a node that still has the
  lifecycle label of an earlier pass.\<close>

definition staleNode :: Node where
  "staleNode = \<lparr>Name = ''node-2'', Labels = staleLabels, ProviderID = []\<rparr>"

definition onDemandLabels :: "(string, string) alist" where
  "onDemandLabels = DAList.update (lifecycleLabel ''ondemand'') ''true'' nodesLabels"

text \<open>Further nodes and collaborators of the toy instance: a node without group label and
  without providerID; a node that already carries its desired labels and a label of its
  owner; an identity provider that fails and one that reports no lifecycle class; a decoder
  for a store in which every path holds a cluster manifest.\<close>

definition unidentifiedNode :: Node where
  "unidentifiedNode = \<lparr>Name = ''node-3'', Labels = DAList.empty, ProviderID = []\<rparr>"

definition settledNode :: Node where
  "settledNode =
     \<lparr>Name = ''node-4'',
      Labels = DAList.update ''team'' ''infra'' (addLifecycleLabel ''spot'' nodesLabels),
      ProviderID = ''aws:///us-test-1a/i-0456''\<rparr>"

definition failingIdentify :: "nat \<Rightarrow> Node \<Rightarrow> (string + LegacyIdentifyInfo) \<times> nat" where
  "failingIdentify w node = (Inl ''RequestLimitExceeded'', Suc w)"

definition plainIdentify :: "nat \<Rightarrow> Node \<Rightarrow> (string + LegacyIdentifyInfo) \<times> nat" where
  "plainIdentify w node = (Inr \<lparr>InstanceGroup = ''nodes'', InstanceLifecycle = []\<rparr>, Suc w)"

definition clusterOnlyDecode :: "string \<Rightarrow> string + (string, string) Object" where
  "clusterOnlyDecode b = Inr (ClusterObject ''example.k8s.local'')"

section \<open>Properties\<close>

subsection \<open>The two loops of the diff\<close>

lemma update_loop_lookup:
  "distinct (map fst xs) \<Longrightarrow>
   DAList.lookup
     (fold (\<lambda>(k, v) updateLabels.
             case DAList.lookup nodeLabels k of
               None \<Rightarrow> DAList.update k v updateLabels
             | Some actual \<Rightarrow>
                 if actual \<noteq> v then DAList.update k v updateLabels else updateLabels) xs acc) k =
   (case map_of xs k of
      None \<Rightarrow> DAList.lookup acc k
    | Some v \<Rightarrow> if DAList.lookup nodeLabels k = Some v then DAList.lookup acc k else Some v)"
proof (induction xs arbitrary: acc)
  case Nil
  then show ?case by simp
next
  case (Cons x xs)
  obtain a b where x: "x = (a, b)" by (cases x)
  from Cons.prems have d: "distinct (map fst xs)" and nin: "a \<notin> fst ` set xs"
    by (auto simp: x)
  from nin have none: "map_of xs a = None"
    by (simp add: map_of_eq_None_iff)
  show ?case
    using Cons.IH [OF d] none
    by (auto simp: x DAList.lookup_update split: option.splits)
qed

lemma updateLabelsOf_lookup:
  "DAList.lookup (updateLabelsOf L D) k =
     (case DAList.lookup D k of
        None \<Rightarrow> None
      | Some v \<Rightarrow> if DAList.lookup L k = Some v then None else Some v)"
  unfolding updateLabelsOf_def
  by (simp add: update_loop_lookup flip: DAList.lookup.rep_eq split: option.splits)

lemma managedKeys_iff:
  "(k = RoleLabelMaster16 \<or> k = RoleLabelAPIServer16 \<or> k = RoleLabelNode16
      \<or> k = RoleLabelControlPlane20) \<longleftrightarrow> k \<in> managedKeys"
  by (auto simp: managedKeys_def)

lemma delete_loop_lookup:
  "DAList.lookup
     (fold (\<lambda>(k, v) deleteLabels.
             if k = RoleLabelMaster16 \<or> k = RoleLabelAPIServer16 \<or> k = RoleLabelNode16
                \<or> k = RoleLabelControlPlane20
             then (case DAList.lookup labels k of
                     None \<Rightarrow> DAList.update k () deleteLabels
                   | Some found \<Rightarrow> deleteLabels)
             else deleteLabels) xs acc) k =
   (if k \<in> fst ` set xs \<and> k \<in> managedKeys \<and> DAList.lookup labels k = None then Some ()
    else DAList.lookup acc k)"
  unfolding managedKeys_iff
proof (induction xs arbitrary: acc)
  case Nil
  then show ?case by simp
next
  case (Cons x xs)
  obtain a b where x: "x = (a, b)" by (cases x)
  show ?case
    unfolding x
    by (auto simp: Cons.IH DAList.lookup_update split: option.splits)
qed

lemma deleteLabelsOf_lookup:
  "DAList.lookup (deleteLabelsOf L D) k =
     (if DAList.lookup L k \<noteq> None \<and> k \<in> managedKeys \<and> DAList.lookup D k = None then Some ()
      else None)"
  unfolding deleteLabelsOf_def
proof -
  have "k \<in> fst ` set (DAList.impl_of L) \<longleftrightarrow> DAList.lookup L k \<noteq> None"
    by (simp add: DAList.lookup.rep_eq map_of_eq_None_iff)
  then show "DAList.lookup
     (fold (\<lambda>(k, v) deleteLabels.
             if k = RoleLabelMaster16 \<or> k = RoleLabelAPIServer16 \<or> k = RoleLabelNode16
                \<or> k = RoleLabelControlPlane20
             then (case DAList.lookup D k of
                     None \<Rightarrow> DAList.update k () deleteLabels
                   | Some found \<Rightarrow> deleteLabels)
             else deleteLabels) (DAList.impl_of L) DAList.empty) k =
     (if DAList.lookup L k \<noteq> None \<and> k \<in> managedKeys \<and> DAList.lookup D k = None then Some ()
      else None)"
    by (simp only: delete_loop_lookup) simp
qed

lemma size_alist_0: "size (m :: ('k, 'v) alist) = 0 \<longleftrightarrow> (\<forall>k. DAList.lookup m k = None)"
  by (simp add: size_alist_def DAList.lookup.rep_eq map_of_eq_None_iff)

lemma alist_empty_iff: "m = DAList.empty \<longleftrightarrow> (\<forall>k. DAList.lookup m k = None)"
  by (simp add: DAList.alist_eq_iff DAList.empty.rep_eq DAList.lookup.rep_eq map_of_eq_None_iff)

lemma lifecycleLabel_inj: "lifecycleLabel x = lifecycleLabel y \<longleftrightarrow> x = y"
  by (simp add: lifecycleLabel_def)

lemma lifecycleLabel_not_managed: "lifecycleLabel x \<notin> managedKeys"
proof -
  have "take 3 (rev (lifecycleLabel x)) = ''rek''"
    by (simp add: lifecycleLabel_def)
  moreover have "\<forall>k\<in>managedKeys. take 3 (rev k) \<noteq> ''rek''"
    by (simp add: managedKeys_def RoleLabelMaster16_def RoleLabelAPIServer16_def
        RoleLabelNode16_def RoleLabelControlPlane20_def)
  ultimately show ?thesis by blast
qed

subsection \<open>The diff\<close>

text \<open>C1. For every current label map \<open>L\<close> of the node and every desired label map \<open>D\<close>,
  the update set is exactly \<open>{k \<mapsto> D[k] | k \<notin> L or L[k] \<noteq> D[k]}\<close>, the delete set is exactly
  the managed keys of \<open>L\<close> that are not in \<open>D\<close>, the two sets are disjoint, and the labels after
  the patch (update set set, delete set removed) agree with \<open>D\<close> on every managed or desired
  key and with \<open>L\<close> on every other key.\<close>

theorem diff_correct:
  "Map.graph (DAList.lookup (updateLabelsOf L D)) =
     {(k, v). DAList.lookup D k = Some v \<and>
              (k \<notin> dom (DAList.lookup L) \<or> DAList.lookup L k \<noteq> Some v)}
   \<and> dom (DAList.lookup (deleteLabelsOf L D)) =
     {k \<in> dom (DAList.lookup L) \<inter> managedKeys. k \<notin> dom (DAList.lookup D)}
   \<and> dom (DAList.lookup (updateLabelsOf L D)) \<inter> dom (DAList.lookup (deleteLabelsOf L D)) = {}
   \<and> (\<forall>k. k \<in> managedKeys \<or> k \<in> dom (DAList.lookup D) \<longrightarrow>
          applyPatch L (updateLabelsOf L D) (deleteLabelsOf L D) k = DAList.lookup D k)
   \<and> (\<forall>k. k \<notin> managedKeys \<and> k \<notin> dom (DAList.lookup D) \<longrightarrow>
          applyPatch L (updateLabelsOf L D) (deleteLabelsOf L D) k = DAList.lookup L k)"
proof (intro conjI allI impI)
  show "Map.graph (DAList.lookup (updateLabelsOf L D)) =
     {(k, v). DAList.lookup D k = Some v \<and>
              (k \<notin> dom (DAList.lookup L) \<or> DAList.lookup L k \<noteq> Some v)}"
    by (auto simp: Map.graph_def updateLabelsOf_lookup split: option.splits if_splits)
  show "dom (DAList.lookup (deleteLabelsOf L D)) =
     {k \<in> dom (DAList.lookup L) \<inter> managedKeys. k \<notin> dom (DAList.lookup D)}"
    by (auto simp: dom_def deleteLabelsOf_lookup split: if_splits)
  show "dom (DAList.lookup (updateLabelsOf L D)) \<inter> dom (DAList.lookup (deleteLabelsOf L D)) = {}"
    by (auto simp: dom_def updateLabelsOf_lookup deleteLabelsOf_lookup
        split: option.splits if_splits)
next
  fix k
  assume "k \<in> managedKeys \<or> k \<in> dom (DAList.lookup D)"
  then show "applyPatch L (updateLabelsOf L D) (deleteLabelsOf L D) k = DAList.lookup D k"
    by (cases "DAList.lookup D k"; cases "DAList.lookup L k")
      (auto simp: applyPatch_def updateLabelsOf_lookup deleteLabelsOf_lookup)
next
  fix k
  assume "k \<notin> managedKeys \<and> k \<notin> dom (DAList.lookup D)"
  then show "applyPatch L (updateLabelsOf L D) (deleteLabelsOf L D) k = DAList.lookup L k"
    by (auto simp: applyPatch_def updateLabelsOf_lookup deleteLabelsOf_lookup domIff)
qed

lemmas example_label_defs = staleLabels_def nodesLabels_def RoleLabelMaster16_def
  RoleLabelAPIServer16_def RoleLabelNode16_def RoleLabelControlPlane20_def

theorem diff_correct_witness:
  "(RoleLabelMaster16 \<in> managedKeys \<or> RoleLabelMaster16 \<in> dom (DAList.lookup nodesLabels))
   \<and> applyPatch staleLabels (updateLabelsOf staleLabels nodesLabels)
        (deleteLabelsOf staleLabels nodesLabels) RoleLabelMaster16 = None
   \<and> (''team'' \<notin> managedKeys \<and> ''team'' \<notin> dom (DAList.lookup nodesLabels))
   \<and> applyPatch staleLabels (updateLabelsOf staleLabels nodesLabels)
        (deleteLabelsOf staleLabels nodesLabels) ''team'' = Some ''infra''"
proof -
  have m: "RoleLabelMaster16 \<in> managedKeys \<or> RoleLabelMaster16 \<in> dom (DAList.lookup nodesLabels)"
    by (simp add: managedKeys_def)
  have t: "''team'' \<notin> managedKeys \<and> ''team'' \<notin> dom (DAList.lookup nodesLabels)"
    by (simp add: managedKeys_def example_label_defs DAList.lookup_update domIff)
  have d: "DAList.lookup nodesLabels RoleLabelMaster16 = None"
    by (simp add: example_label_defs DAList.lookup_update)
  have l: "DAList.lookup staleLabels ''team'' = Some ''infra''"
    by (simp add: example_label_defs DAList.lookup_update)
  note c = diff_correct [of staleLabels nodesLabels]
  from c have a: "\<forall>k. k \<in> managedKeys \<or> k \<in> dom (DAList.lookup nodesLabels) \<longrightarrow>
      applyPatch staleLabels (updateLabelsOf staleLabels nodesLabels)
        (deleteLabelsOf staleLabels nodesLabels) k = DAList.lookup nodesLabels k"
    by (elim conjE)
  from c have b: "\<forall>k. k \<notin> managedKeys \<and> k \<notin> dom (DAList.lookup nodesLabels) \<longrightarrow>
      applyPatch staleLabels (updateLabelsOf staleLabels nodesLabels)
        (deleteLabelsOf staleLabels nodesLabels) k = DAList.lookup staleLabels k"
    by (elim conjE)
  from a [rule_format, OF m] d have "applyPatch staleLabels (updateLabelsOf staleLabels nodesLabels)
        (deleteLabelsOf staleLabels nodesLabels) RoleLabelMaster16 = None"
    by simp
  moreover from b [rule_format, OF t] l have "applyPatch staleLabels (updateLabelsOf staleLabels nodesLabels)
        (deleteLabelsOf staleLabels nodesLabels) ''team'' = Some ''infra''"
    by simp
  ultimately show ?thesis using m t by blast
qed

lemma Reconcile_diff_calls:
  "calls (snd (Reconcile_diff r node D s)) =
     calls s @
     (if size (updateLabelsOf (Labels node) D) = 0 \<and> size (deleteLabelsOf (Labels node) D) = 0
      then []
      else [CallPatch node (updateLabelsOf (Labels node) D) (deleteLabelsOf (Labels node) D)])"
  by (simp add: Reconcile_diff_def do_patchNodeLabels_def Let_def split: prod.splits option.splits)

text \<open>C2. The second stage of a pass makes no call but the patch with the two sets of the
  diff. Every key of the delete set is one of the four managed keys, and a label of the
  node whose key is neither desired nor managed is in neither the update set nor the delete
  set.\<close>

theorem diff_frame:
  "(\<exists>cs. calls (snd (Reconcile_diff r node D s)) = calls s @ cs \<and>
         (\<forall>c \<in> set cs.
            c = CallPatch node (updateLabelsOf (Labels node) D) (deleteLabelsOf (Labels node) D)))
   \<and> dom (DAList.lookup (deleteLabelsOf (Labels node) D)) \<subseteq> managedKeys
   \<and> (\<forall>k \<in> dom (DAList.lookup (Labels node)).
         k \<notin> dom (DAList.lookup D) \<and> k \<notin> managedKeys \<longrightarrow>
           k \<notin> dom (DAList.lookup (updateLabelsOf (Labels node) D)) \<and>
           k \<notin> dom (DAList.lookup (deleteLabelsOf (Labels node) D)))"
proof (intro conjI ballI impI)
  show "\<exists>cs. calls (snd (Reconcile_diff r node D s)) = calls s @ cs \<and>
         (\<forall>c \<in> set cs.
            c = CallPatch node (updateLabelsOf (Labels node) D) (deleteLabelsOf (Labels node) D))"
    by (simp add: Reconcile_diff_calls)
  show "dom (DAList.lookup (deleteLabelsOf (Labels node) D)) \<subseteq> managedKeys"
    by (auto simp: deleteLabelsOf_lookup split: if_splits)
next
  fix k
  assume "k \<notin> dom (DAList.lookup D) \<and> k \<notin> managedKeys"
  then show "k \<notin> dom (DAList.lookup (updateLabelsOf (Labels node) D))"
    by (auto simp: updateLabelsOf_lookup domIff)
next
  fix k
  assume "k \<notin> dom (DAList.lookup D) \<and> k \<notin> managedKeys"
  then show "k \<notin> dom (DAList.lookup (deleteLabelsOf (Labels node) D))"
    by (auto simp: deleteLabelsOf_lookup domIff)
qed

theorem diff_frame_witness:
  "calls (snd (Reconcile_diff (exampleReconciler exampleNode exampleDecode exampleIdentify)
                 staleNode nodesLabels initial)) =
     [CallPatch staleNode (updateLabelsOf (Labels staleNode) nodesLabels)
        (deleteLabelsOf (Labels staleNode) nodesLabels)]
   \<and> ''team'' \<in> dom (DAList.lookup (Labels staleNode))
   \<and> (''team'' \<notin> dom (DAList.lookup nodesLabels) \<and> ''team'' \<notin> managedKeys)
   \<and> ''team'' \<notin> dom (DAList.lookup (updateLabelsOf (Labels staleNode) nodesLabels))
   \<and> ''team'' \<notin> dom (DAList.lookup (deleteLabelsOf (Labels staleNode) nodesLabels))"
proof -
  have i: "''team'' \<in> dom (DAList.lookup (Labels staleNode))"
    by (simp add: staleNode_def example_label_defs DAList.lookup_update domIff)
  have t: "''team'' \<notin> dom (DAList.lookup nodesLabels) \<and> ''team'' \<notin> managedKeys"
    by (simp add: managedKeys_def example_label_defs DAList.lookup_update domIff)
  have "DAList.lookup (updateLabelsOf (Labels staleNode) nodesLabels) RoleLabelNode16 = Some []"
    by (simp add: updateLabelsOf_lookup staleNode_def example_label_defs DAList.lookup_update)
  then have "size (updateLabelsOf (Labels staleNode) nodesLabels) \<noteq> 0"
    by (auto simp: size_alist_0)
  then have p: "calls (snd (Reconcile_diff
        (exampleReconciler exampleNode exampleDecode exampleIdentify) staleNode nodesLabels
        initial)) =
     [CallPatch staleNode (updateLabelsOf (Labels staleNode) nodesLabels)
        (deleteLabelsOf (Labels staleNode) nodesLabels)]"
    by (simp add: Reconcile_diff_calls initial_def)
  note c = diff_frame [of "exampleReconciler exampleNode exampleDecode exampleIdentify"
      staleNode nodesLabels initial]
  from c [THEN conjunct2, THEN conjunct2]
  have "\<forall>k \<in> dom (DAList.lookup (Labels staleNode)).
         k \<notin> dom (DAList.lookup nodesLabels) \<and> k \<notin> managedKeys \<longrightarrow>
           k \<notin> dom (DAList.lookup (updateLabelsOf (Labels staleNode) nodesLabels)) \<and>
           k \<notin> dom (DAList.lookup (deleteLabelsOf (Labels staleNode) nodesLabels))" .
  from this [rule_format, OF i t] i t p show ?thesis
    by blast
qed

subsection \<open>Lifecycle labels of earlier passes\<close>

text \<open>The desired labels after lines 123 to 125, as a map.\<close>

lemma addLifecycleLabel_lookup:
  "DAList.lookup (addLifecycleLabel lifecycle labels) =
     (if lifecycle \<noteq> [] then (DAList.lookup labels)(lifecycleLabel lifecycle \<mapsto> ''true'')
      else DAList.lookup labels)"
  by (auto simp: addLifecycleLabel_def DAList.lookup_update fun_eq_iff)

text \<open>C10. A label \<^verbatim>\<open>node-role.kubernetes.io/<x>-worker\<close> is never in the delete set: it
  is none of the four managed keys. A node that carries it still carries it after the patch;
  when \<open>x\<close> is not the lifecycle class of this pass and the label policy does not emit the
  key itself, the label stays with its value.\<close>

theorem stale_lifecycle_label_kept:
  "lifecycleLabel x \<notin> managedKeys
   \<and> lifecycleLabel x \<notin> dom (DAList.lookup (deleteLabelsOf L D))
   \<and> (lifecycleLabel x \<in> dom (DAList.lookup L) \<longrightarrow>
        lifecycleLabel x \<in> dom (applyPatch L (updateLabelsOf L D) (deleteLabelsOf L D)))
   \<and> (x \<noteq> lifecycle \<and> DAList.lookup L (lifecycleLabel x) = Some v \<and>
        DAList.lookup labels (lifecycleLabel x) = None \<longrightarrow>
        applyPatch L (updateLabelsOf L (addLifecycleLabel lifecycle labels))
          (deleteLabelsOf L (addLifecycleLabel lifecycle labels)) (lifecycleLabel x) = Some v)"
proof (intro conjI impI)
  show nm: "lifecycleLabel x \<notin> managedKeys"
    by (rule lifecycleLabel_not_managed)
  show nd: "lifecycleLabel x \<notin> dom (DAList.lookup (deleteLabelsOf L D))"
    by (simp add: deleteLabelsOf_lookup domIff lifecycleLabel_not_managed)
  show "lifecycleLabel x \<in> dom (applyPatch L (updateLabelsOf L D) (deleteLabelsOf L D))"
    if "lifecycleLabel x \<in> dom (DAList.lookup L)"
    using that
    by (auto simp: applyPatch_def deleteLabelsOf_lookup updateLabelsOf_lookup
        lifecycleLabel_not_managed domIff split: option.splits)
  show "applyPatch L (updateLabelsOf L (addLifecycleLabel lifecycle labels))
          (deleteLabelsOf L (addLifecycleLabel lifecycle labels)) (lifecycleLabel x) = Some v"
    if "x \<noteq> lifecycle \<and> DAList.lookup L (lifecycleLabel x) = Some v \<and>
        DAList.lookup labels (lifecycleLabel x) = None"
    using that
    by (simp add: applyPatch_def deleteLabelsOf_lookup updateLabelsOf_lookup
        lifecycleLabel_not_managed addLifecycleLabel_lookup lifecycleLabel_inj)
qed

theorem stale_lifecycle_label_kept_witness:
  "(''ondemand'' \<noteq> ''spot'' \<and>
    DAList.lookup onDemandLabels (lifecycleLabel ''ondemand'') = Some ''true'' \<and>
    DAList.lookup nodesLabels (lifecycleLabel ''ondemand'') = None)
   \<and> lifecycleLabel ''ondemand'' \<notin>
         dom (DAList.lookup
                (deleteLabelsOf onDemandLabels (addLifecycleLabel ''spot'' nodesLabels)))
   \<and> lifecycleLabel ''ondemand'' \<in>
         dom (applyPatch onDemandLabels
                (updateLabelsOf onDemandLabels (addLifecycleLabel ''spot'' nodesLabels))
                (deleteLabelsOf onDemandLabels (addLifecycleLabel ''spot'' nodesLabels)))
   \<and> applyPatch onDemandLabels
         (updateLabelsOf onDemandLabels (addLifecycleLabel ''spot'' nodesLabels))
         (deleteLabelsOf onDemandLabels (addLifecycleLabel ''spot'' nodesLabels))
         (lifecycleLabel ''ondemand'') = Some ''true''"
proof -
  have h: "''ondemand'' \<noteq> ''spot'' \<and>
    DAList.lookup onDemandLabels (lifecycleLabel ''ondemand'') = Some ''true'' \<and>
    DAList.lookup nodesLabels (lifecycleLabel ''ondemand'') = None"
    by (simp add: onDemandLabels_def lifecycleLabel_def example_label_defs DAList.lookup_update)
  then have d: "lifecycleLabel ''ondemand'' \<in> dom (DAList.lookup onDemandLabels)"
    by (simp add: domIff)
  note c = stale_lifecycle_label_kept [of "''ondemand''" onDemandLabels
      "addLifecycleLabel ''spot'' nodesLabels" "''spot''" "''true''" nodesLabels]
  from c [THEN conjunct2, THEN conjunct1]
    c [THEN conjunct2, THEN conjunct2, THEN conjunct1, rule_format, OF d]
    c [THEN conjunct2, THEN conjunct2, THEN conjunct2, rule_format, OF h] h
  show ?thesis
    by blast
qed

subsection \<open>The calls of each step\<close>

lemma identifyCalls_simps [simp]:
  "identifyCalls [] = 0"
  "identifyCalls (cs @ ds) = identifyCalls cs + identifyCalls ds"
  "identifyCalls (c # cs) = (if isIdentify c then 1 else 0) + identifyCalls cs"
  by (simp_all add: identifyCalls_def)

lemma patchCalls_simps [simp]:
  "patchCalls [] = 0"
  "patchCalls (cs @ ds) = patchCalls cs + patchCalls ds"
  "patchCalls (c # cs) = (if isPatch c then 1 else 0) + patchCalls cs"
  by (simp_all add: patchCalls_def)

lemma readCalls_simps [simp]:
  "readCalls [] = 0"
  "readCalls (cs @ ds) = readCalls cs + readCalls ds"
  "readCalls (c # cs) = (if isRead c then 1 else 0) + readCalls cs"
  by (simp_all add: readCalls_def)

lemma do_Get_calls:
  "do_Get r name s = (res, s') \<Longrightarrow> calls s' = calls s @ [CallGet name]"
  by (auto simp: do_Get_def split: prod.splits)

lemma do_Read_calls:
  "do_Read r p s = (res, s') \<Longrightarrow> calls s' = calls s @ [CallRead p]"
  by (auto simp: do_Read_def split: prod.splits)

lemma do_IdentifyNode_calls:
  "do_IdentifyNode r node s = (res, s') \<Longrightarrow> calls s' = calls s @ [CallIdentifyNode node]"
  by (auto simp: do_IdentifyNode_def split: prod.splits)

lemma loadCluster_calls:
  "loadCluster r p s = (res, s') \<Longrightarrow> calls s' = calls s @ [CallRead p]"
  by (auto simp: loadCluster_def split: prod.splits sum.splits Object.splits
      dest: do_Read_calls)

lemma loadNamedInstanceGroup_calls:
  "loadNamedInstanceGroup r name s = (res, s') \<Longrightarrow>
     calls s' = calls s @ [CallRead (Join (configBase r) [''instancegroup'', name])]"
  by (auto simp: loadNamedInstanceGroup_def Let_def split: prod.splits sum.splits Object.splits
      dest: do_Read_calls)

lemma getClusterForNode_calls:
  "getClusterForNode r node s = (res, s') \<Longrightarrow>
     calls s' = calls s @ [CallRead (Join (configBase r) [PathClusterCompleted])]"
  by (auto simp: getClusterForNode_def Let_def split: prod.splits sum.splits
      dest: loadCluster_calls)

lemma getInstanceLifecycle_calls:
  "getInstanceLifecycle r node s = (res, s') \<Longrightarrow> calls s' = calls s @ [CallIdentifyNode node]"
  by (auto simp: getInstanceLifecycle_def split: prod.splits sum.splits
      dest: do_IdentifyNode_calls)

lemma getInstanceGroupForNode_counts:
  assumes "getInstanceGroupForNode r node s = (res, s')"
  shows "patchCalls (calls s') = patchCalls (calls s) \<and>
         identifyCalls (calls s') = identifyCalls (calls s) +
           (if index (Labels node) ''kops.k8s.io/instancegroup'' = [] \<and> ProviderID node \<noteq> []
            then 1 else 0)"
  using assms
  by (auto simp: getInstanceGroupForNode_def Let_def
      split: prod.splits sum.splits if_splits
      dest!: do_IdentifyNode_calls loadNamedInstanceGroup_calls)

lemma Reconcile_desired_counts:
  assumes "Reconcile_desired r req s = (res, s')"
  shows "patchCalls (calls s') = patchCalls (calls s) \<and>
         identifyCalls (calls s') \<le> identifyCalls (calls s) + 2"
  using assms
  by (auto simp: Reconcile_desired_def
      split: prod.splits sum.splits if_splits
      dest!: do_Get_calls getClusterForNode_calls getInstanceLifecycle_calls
        getInstanceGroupForNode_counts)

lemma Reconcile_diff_counts:
  "identifyCalls (calls (snd (Reconcile_diff r node D s))) = identifyCalls (calls s)"
  by (simp add: Reconcile_diff_calls)

lemmas example_defs = exampleReconciler_def exampleNode_def initial_def exampleLabels_def
  exampleDecode_def exampleIdentify_def unidentifiedNode_def settledNode_def failingIdentify_def
  clusterOnlyDecode_def staleNode_def onDemandLabels_def staleLabels_def nodesLabels_def

lemmas pass_defs = Reconcile_def Reconcile_desired_def Reconcile_diff_def do_Get_def do_Read_def
  do_IdentifyNode_def do_patchNodeLabels_def loadCluster_def loadNamedInstanceGroup_def
  getClusterForNode_def getInstanceLifecycle_def getInstanceGroupForNode_def index_def Join_def
  addLifecycleLabel_def lifecycleLabel_def Let_def updateLabelsOf_def deleteLabelsOf_def
  size_alist_def DAList.update.rep_eq DAList.empty.rep_eq DAList.lookup.rep_eq
  PathClusterCompleted_def RoleLabelMaster16_def RoleLabelAPIServer16_def RoleLabelNode16_def
  RoleLabelControlPlane20_def

subsection \<open>The node is gone\<close>

text \<open>C4. When fetching the node fails with an error that \<^verbatim>\<open>apierrors.IsNotFound\<close> accepts,
  the pass returns \<^verbatim>\<open>nil\<close> and its only call is the fetch: no manifest is read, the identity
  provider is not asked and no patch is sent.\<close>

theorem reconcile_node_not_found:
  assumes "client_Get r (world s) req = (Inl err, w)" and "IsNotFound r err"
  shows "Reconcile r req s = (None, \<lparr>world = w, calls = calls s @ [CallGet req]\<rparr>)
     \<and> readCalls (calls (snd (Reconcile r req s))) = readCalls (calls s)
     \<and> identifyCalls (calls (snd (Reconcile r req s))) = identifyCalls (calls s)
     \<and> patchCalls (calls (snd (Reconcile r req s))) = patchCalls (calls s)"
proof -
  from assms
  have "Reconcile r req s = (None, \<lparr>world = w, calls = calls s @ [CallGet req]\<rparr>)"
    by (simp add: Reconcile_def Reconcile_desired_def do_Get_def)
  then show ?thesis by simp
qed

theorem reconcile_node_not_found_witness:
  "client_Get (exampleReconciler exampleNode exampleDecode exampleIdentify) (world initial)
     ''node-9'' = (Inl ''not found'', 0)
   \<and> IsNotFound (exampleReconciler exampleNode exampleDecode exampleIdentify) ''not found''
   \<and> Reconcile (exampleReconciler exampleNode exampleDecode exampleIdentify) ''node-9'' initial =
       (None, \<lparr>world = 0, calls = [CallGet ''node-9'']\<rparr>)"
proof -
  have g: "client_Get (exampleReconciler exampleNode exampleDecode exampleIdentify)
      (world initial) ''node-9'' = (Inl ''not found'', 0)"
    by (simp add: example_defs)
  have n: "IsNotFound (exampleReconciler exampleNode exampleDecode exampleIdentify) ''not found''"
    by (simp add: example_defs)
  from reconcile_node_not_found [OF g n] g n show ?thesis
    by (simp add: initial_def)
qed

subsection \<open>Group resolution\<close>

text \<open>C6. For a node whose group label is absent (or empty, which line 192 treats alike) and
  whose providerID is empty, group resolution returns the error
  \<^verbatim>\<open>node providerID not set\<close> and leaves the state as it was, so the identity provider is not
  called. A pass that has fetched the node and loaded the cluster returns this error, wrapped
  with the node name. Every pass that fetched such a node ends with an error, without a call
  of the identity provider and without a patch.\<close>

theorem missing_providerID_validation_error:
  assumes "index (Labels node) ''kops.k8s.io/instancegroup'' = []" and "ProviderID node = []"
  shows "getInstanceGroupForNode r node s =
           (Inl (Errorf ''node providerID not set for node %q'' [AString (Name node)]), s)
     \<and> (do_Get r req s0 = (Inr node, s1) \<and> getClusterForNode r node s1 = (Inr cluster, s2) \<longrightarrow>
          Reconcile r req s0 =
            (Some (Errorf ''unable to load instance group object for node %s: %v''
                     [AString (Name node),
                      AError (Errorf ''node providerID not set for node %q''
                                [AString (Name node)])]), s2))
     \<and> (do_Get r req s0 = (Inr node, s1) \<longrightarrow>
          fst (Reconcile r req s0) \<noteq> None \<and>
          identifyCalls (calls (snd (Reconcile r req s0))) = identifyCalls (calls s0) \<and>
          patchCalls (calls (snd (Reconcile r req s0))) = patchCalls (calls s0))"
proof -
  have g: "getInstanceGroupForNode r node s =
      (Inl (Errorf ''node providerID not set for node %q'' [AString (Name node)]), s)" for s
    using assms by (simp add: getInstanceGroupForNode_def)
  have a: "Reconcile r req s0 =
            (Some (Errorf ''unable to load instance group object for node %s: %v''
                     [AString (Name node),
                      AError (Errorf ''node providerID not set for node %q''
                                [AString (Name node)])]), s2)"
    if "do_Get r req s0 = (Inr node, s1)" "getClusterForNode r node s1 = (Inr cluster, s2)"
    for cluster s2
    using that by (simp add: Reconcile_def Reconcile_desired_def g)
  have b: "fst (Reconcile r req s0) \<noteq> None \<and>
          identifyCalls (calls (snd (Reconcile r req s0))) = identifyCalls (calls s0) \<and>
          patchCalls (calls (snd (Reconcile r req s0))) = patchCalls (calls s0)"
    if get: "do_Get r req s0 = (Inr node, s1)"
  proof (cases "getClusterForNode r node s1")
    case (Pair res s2)
    note c1 = do_Get_calls [OF get] getClusterForNode_calls [OF Pair]
    show ?thesis
    proof (cases res)
      case (Inl e)
      with get Pair c1 show ?thesis
        by (simp add: Reconcile_def Reconcile_desired_def)
    next
      case (Inr cluster)
      with a [OF get] Pair c1 show ?thesis
        by simp
    qed
  qed
  from g a b show ?thesis by blast
qed

theorem missing_providerID_validation_error_witness:
  "index (Labels unidentifiedNode) ''kops.k8s.io/instancegroup'' = []
   \<and> ProviderID unidentifiedNode = []
   \<and> do_Get (exampleReconciler unidentifiedNode exampleDecode exampleIdentify) ''node-3'' initial
       = (Inr unidentifiedNode, \<lparr>world = 0, calls = [CallGet ''node-3'']\<rparr>)
   \<and> Reconcile (exampleReconciler unidentifiedNode exampleDecode exampleIdentify) ''node-3''
       initial =
       (Some (Errorf ''unable to load instance group object for node %s: %v''
                [AString ''node-3'',
                 AError (Errorf ''node providerID not set for node %q'' [AString ''node-3''])]),
        \<lparr>world = 0,
         calls = [CallGet ''node-3'',
                  CallRead [''memfs://clusters'', ''example.k8s.local'',
                            ''cluster-completed.spec'']]\<rparr>)"
proof -
  let ?r = "exampleReconciler unidentifiedNode exampleDecode exampleIdentify"
  let ?s1 = "\<lparr>world = 0::nat, calls = [CallGet ''node-3'']\<rparr>"
  let ?s2 = "\<lparr>world = 0::nat,
         calls = [CallGet ''node-3'',
                  CallRead [''memfs://clusters'', ''example.k8s.local'',
                            ''cluster-completed.spec'']]\<rparr>"
  have l: "index (Labels unidentifiedNode) ''kops.k8s.io/instancegroup'' = []"
    by (simp add: unidentifiedNode_def index_def)
  have p: "ProviderID unidentifiedNode = []"
    by (simp add: unidentifiedNode_def)
  have g: "do_Get ?r ''node-3'' initial = (Inr unidentifiedNode, ?s1)"
    by (simp add: example_defs do_Get_def)
  have c: "getClusterForNode ?r unidentifiedNode ?s1 = (Inr ''example.k8s.local'', ?s2)"
    by (simp add: example_defs pass_defs)
  note t = missing_providerID_validation_error [OF l p, of ?r initial "''node-3''" initial ?s1
      "''example.k8s.local''" ?s2]
  from t [THEN conjunct2, THEN conjunct1] g c l p show ?thesis
    by (simp add: unidentifiedNode_def)
qed

subsection \<open>The lifecycle label\<close>

text \<open>C7. In a pass whose steps succeed and resolve the lifecycle class \<open>lifecycle\<close>, the
  desired labels are those of \<^verbatim>\<open>BuildNodeLabels\<close> with, when \<open>lifecycle\<close> is not empty, the
  one key \<^verbatim>\<open>node-role.kubernetes.io/<lifecycle>-worker\<close> set to \<^verbatim>\<open>true\<close>; when it is empty,
  they are the labels of \<^verbatim>\<open>BuildNodeLabels\<close> unchanged.\<close>

theorem lifecycle_label_desired:
  assumes "do_Get r req s = (Inr node, s1)"
    and "getClusterForNode r node s1 = (Inr cluster, s2)"
    and "getInstanceGroupForNode r node s2 = (Inr ig, s3)"
    and "BuildNodeLabels r cluster ig = Inr labels"
    and "getInstanceLifecycle r node s3 = (Inr lifecycle, s4)"
  shows "Reconcile_desired r req s = (Inr (node, addLifecycleLabel lifecycle labels), s4)
     \<and> (lifecycle \<noteq> [] \<longrightarrow>
          DAList.lookup (addLifecycleLabel lifecycle labels) =
            (DAList.lookup labels)
              (''node-role.kubernetes.io/'' @ lifecycle @ ''-worker'' \<mapsto> ''true''))
     \<and> (lifecycle = [] \<longrightarrow> addLifecycleLabel lifecycle labels = labels)"
proof (intro conjI impI)
  from assms
  show "Reconcile_desired r req s = (Inr (node, addLifecycleLabel lifecycle labels), s4)"
    by (simp add: Reconcile_desired_def)
  show "DAList.lookup (addLifecycleLabel lifecycle labels) =
            (DAList.lookup labels)
              (''node-role.kubernetes.io/'' @ lifecycle @ ''-worker'' \<mapsto> ''true'')"
    if "lifecycle \<noteq> []"
    using that by (simp add: addLifecycleLabel_lookup lifecycleLabel_def)
  show "addLifecycleLabel lifecycle labels = labels" if "lifecycle = []"
    using that by (simp add: addLifecycleLabel_def)
qed

text \<open>The steps of a pass of the toy instance for the node without labels.\<close>

lemma example_pass_steps:
  "do_Get (exampleReconciler exampleNode exampleDecode exampleIdentify) ''node-1'' initial =
     (Inr exampleNode, \<lparr>world = 0, calls = [CallGet ''node-1'']\<rparr>)"
  "getClusterForNode (exampleReconciler exampleNode exampleDecode exampleIdentify) exampleNode
     \<lparr>world = 0, calls = [CallGet ''node-1'']\<rparr> =
     (Inr ''example.k8s.local'',
      \<lparr>world = 0,
       calls = [CallGet ''node-1'',
                CallRead [''memfs://clusters'', ''example.k8s.local'',
                          ''cluster-completed.spec'']]\<rparr>)"
  "getInstanceGroupForNode (exampleReconciler exampleNode exampleDecode exampleIdentify)
     exampleNode
     \<lparr>world = 0,
      calls = [CallGet ''node-1'',
               CallRead [''memfs://clusters'', ''example.k8s.local'',
                         ''cluster-completed.spec'']]\<rparr> =
     (Inr ''nodes'',
      \<lparr>world = 1,
       calls = [CallGet ''node-1'',
                CallRead [''memfs://clusters'', ''example.k8s.local'',
                          ''cluster-completed.spec''],
                CallIdentifyNode exampleNode,
                CallRead [''memfs://clusters'', ''example.k8s.local'', ''instancegroup'',
                          ''nodes'']]\<rparr>)"
  "BuildNodeLabels (exampleReconciler exampleNode exampleDecode exampleIdentify)
     ''example.k8s.local'' ''nodes'' = Inr nodesLabels"
  "getInstanceLifecycle (exampleReconciler exampleNode exampleDecode exampleIdentify) exampleNode
     \<lparr>world = 1,
      calls = [CallGet ''node-1'',
               CallRead [''memfs://clusters'', ''example.k8s.local'',
                         ''cluster-completed.spec''],
               CallIdentifyNode exampleNode,
               CallRead [''memfs://clusters'', ''example.k8s.local'', ''instancegroup'',
                         ''nodes'']]\<rparr> =
     (Inr ''spot'',
      \<lparr>world = 2,
       calls = [CallGet ''node-1'',
                CallRead [''memfs://clusters'', ''example.k8s.local'',
                          ''cluster-completed.spec''],
                CallIdentifyNode exampleNode,
                CallRead [''memfs://clusters'', ''example.k8s.local'', ''instancegroup'',
                          ''nodes''],
                CallIdentifyNode exampleNode]\<rparr>)"
  by (simp_all add: exampleReconciler_def initial_def exampleLabels_def nodesLabels_def
      exampleDecode_def exampleIdentify_def do_Get_def do_Read_def do_IdentifyNode_def
      loadCluster_def loadNamedInstanceGroup_def getClusterForNode_def getInstanceLifecycle_def
      getInstanceGroupForNode_def index_def Join_def Let_def PathClusterCompleted_def
      exampleNode_def [THEN arg_cong, of Name] exampleNode_def [THEN arg_cong, of Labels]
      exampleNode_def [THEN arg_cong, of ProviderID])

text \<open>The steps of a pass of the toy instance for the node that carries its group label,
  with any identity provider.\<close>

lemma settled_pass_steps:
  "do_Get (exampleReconciler settledNode exampleDecode identify) ''node-4'' initial =
     (Inr settledNode, \<lparr>world = 0, calls = [CallGet ''node-4'']\<rparr>)"
  "getClusterForNode (exampleReconciler settledNode exampleDecode identify) settledNode
     \<lparr>world = 0, calls = [CallGet ''node-4'']\<rparr> =
     (Inr ''example.k8s.local'',
      \<lparr>world = 0,
       calls = [CallGet ''node-4'',
                CallRead [''memfs://clusters'', ''example.k8s.local'',
                          ''cluster-completed.spec'']]\<rparr>)"
  "getInstanceGroupForNode (exampleReconciler settledNode exampleDecode identify) settledNode
     \<lparr>world = 0,
      calls = [CallGet ''node-4'',
               CallRead [''memfs://clusters'', ''example.k8s.local'',
                         ''cluster-completed.spec'']]\<rparr> =
     (Inr ''nodes'',
      \<lparr>world = 0,
       calls = [CallGet ''node-4'',
                CallRead [''memfs://clusters'', ''example.k8s.local'',
                          ''cluster-completed.spec''],
                CallRead [''memfs://clusters'', ''example.k8s.local'', ''instancegroup'',
                          ''nodes'']]\<rparr>)"
  "BuildNodeLabels (exampleReconciler settledNode exampleDecode identify)
     ''example.k8s.local'' ''nodes'' = Inr nodesLabels"
  by (simp_all add: exampleReconciler_def initial_def exampleLabels_def nodesLabels_def
      exampleDecode_def do_Get_def do_Read_def
      loadCluster_def loadNamedInstanceGroup_def getClusterForNode_def
      getInstanceGroupForNode_def index_def Join_def Let_def PathClusterCompleted_def
      addLifecycleLabel_def DAList.lookup_update lifecycleLabel_def RoleLabelNode16_def
      settledNode_def [THEN arg_cong, of Name] settledNode_def [THEN arg_cong, of Labels]
      settledNode_def [THEN arg_cong, of ProviderID])

lemma settled_plain_lifecycle_step:
  "getInstanceLifecycle (exampleReconciler settledNode exampleDecode plainIdentify) settledNode
     \<lparr>world = 0,
       calls = [CallGet ''node-4'',
                CallRead [''memfs://clusters'', ''example.k8s.local'',
                          ''cluster-completed.spec''],
                CallRead [''memfs://clusters'', ''example.k8s.local'', ''instancegroup'',
                          ''nodes'']]\<rparr> =
     (Inr [],
      \<lparr>world = 1,
       calls = [CallGet ''node-4'',
                CallRead [''memfs://clusters'', ''example.k8s.local'',
                          ''cluster-completed.spec''],
                CallRead [''memfs://clusters'', ''example.k8s.local'', ''instancegroup'',
                          ''nodes''],
                CallIdentifyNode settledNode]\<rparr>)"
  by (simp add: exampleReconciler_def plainIdentify_def getInstanceLifecycle_def
      do_IdentifyNode_def)

theorem lifecycle_label_desired_witness:
  "''spot'' \<noteq> []
   \<and> fst (Reconcile_desired (exampleReconciler exampleNode exampleDecode exampleIdentify)
           ''node-1'' initial) = Inr (exampleNode, addLifecycleLabel ''spot'' nodesLabels)
   \<and> DAList.lookup (addLifecycleLabel ''spot'' nodesLabels) =
       (DAList.lookup nodesLabels)(''node-role.kubernetes.io/spot-worker'' \<mapsto> ''true'')
   \<and> fst (Reconcile_desired (exampleReconciler settledNode exampleDecode plainIdentify)
           ''node-4'' initial) = Inr (settledNode, nodesLabels)"
proof -
  note t = lifecycle_label_desired [OF example_pass_steps]
  note u = lifecycle_label_desired [OF settled_pass_steps settled_plain_lifecycle_step]
  have n: "''spot'' \<noteq> []" by simp
  from t [THEN conjunct1] t [THEN conjunct2, THEN conjunct1, rule_format, OF n] n
    u [THEN conjunct1] u [THEN conjunct2, THEN conjunct2, rule_format, OF refl]
  show ?thesis by simp
qed

subsection \<open>Calls of the identity provider\<close>

text \<open>C5, as stated, fails: a pass of the toy instance for a node without group label and
  with a providerID, all of whose steps succeed, calls the identity provider twice, once in
  \<^verbatim>\<open>getInstanceGroupForNode\<close> and once in \<^verbatim>\<open>getInstanceLifecycle\<close>.\<close>

theorem identify_once_counterexample:
  "index (Labels exampleNode) ''kops.k8s.io/instancegroup'' = []
   \<and> ProviderID exampleNode \<noteq> []
   \<and> identifyCalls (calls initial) = 0
   \<and> identifyCalls
        (calls (snd (Reconcile (exampleReconciler exampleNode exampleDecode exampleIdentify)
                       ''node-1'' initial))) = 2"
  by (simp add: example_defs pass_defs)

text \<open>C5, as amended. For a node without group label and with a providerID, group
  resolution calls the identity provider exactly once. A pass calls it at most twice, and
  exactly twice when it has fetched the node, loaded the cluster and the group and built the
  labels: the second call is that of \<^verbatim>\<open>getInstanceLifecycle\<close>.\<close>

theorem identify_calls_of_pass:
  assumes "index (Labels node) ''kops.k8s.io/instancegroup'' = []" and "ProviderID node \<noteq> []"
  shows "identifyCalls (calls (snd (getInstanceGroupForNode r node s))) =
           identifyCalls (calls s) + 1
     \<and> identifyCalls (calls (snd (Reconcile r req s0))) \<le> identifyCalls (calls s0) + 2
     \<and> (do_Get r req s0 = (Inr node, s1) \<and> getClusterForNode r node s1 = (Inr cluster, s2) \<and>
        getInstanceGroupForNode r node s2 = (Inr ig, s3) \<and> BuildNodeLabels r cluster ig = Inr labels
        \<longrightarrow> identifyCalls (calls (snd (Reconcile r req s0))) = identifyCalls (calls s0) + 2)"
proof (intro conjI impI)
  show "identifyCalls (calls (snd (getInstanceGroupForNode r node s))) =
           identifyCalls (calls s) + 1"
    using assms getInstanceGroupForNode_counts [of r node s]
    by (cases "getInstanceGroupForNode r node s") simp
  show "identifyCalls (calls (snd (Reconcile r req s0))) \<le> identifyCalls (calls s0) + 2"
  proof (cases "Reconcile_desired r req s0")
    case (Pair res s')
    with Reconcile_desired_counts [OF Pair] show ?thesis
      by (cases res) (auto simp: Reconcile_def Reconcile_diff_counts)
  qed
  assume chain: "do_Get r req s0 = (Inr node, s1) \<and>
    getClusterForNode r node s1 = (Inr cluster, s2) \<and>
    getInstanceGroupForNode r node s2 = (Inr ig, s3) \<and> BuildNodeLabels r cluster ig = Inr labels"
  then have g: "do_Get r req s0 = (Inr node, s1)"
    and c: "getClusterForNode r node s1 = (Inr cluster, s2)"
    and i: "getInstanceGroupForNode r node s2 = (Inr ig, s3)"
    and b: "BuildNodeLabels r cluster ig = Inr labels"
    by simp_all
  from assms getInstanceGroupForNode_counts [OF i] do_Get_calls [OF g]
    getClusterForNode_calls [OF c]
  have n3: "identifyCalls (calls s3) = identifyCalls (calls s0) + 1"
    by simp
  show "identifyCalls (calls (snd (Reconcile r req s0))) = identifyCalls (calls s0) + 2"
  proof (cases "getInstanceLifecycle r node s3")
    case (Pair res s4)
    from getInstanceLifecycle_calls [OF Pair] n3
    have n4: "identifyCalls (calls s4) = identifyCalls (calls s0) + 2"
      by simp
    from g c i b Pair n4 show ?thesis
      by (cases res) (simp_all add: Reconcile_def Reconcile_desired_def Reconcile_diff_counts)
  qed
qed

theorem identify_calls_of_pass_witness:
  "index (Labels exampleNode) ''kops.k8s.io/instancegroup'' = []
   \<and> ProviderID exampleNode \<noteq> []
   \<and> identifyCalls
        (calls (snd (getInstanceGroupForNode
                       (exampleReconciler exampleNode exampleDecode exampleIdentify) exampleNode
                       initial))) = 1
   \<and> identifyCalls
        (calls (snd (Reconcile (exampleReconciler exampleNode exampleDecode exampleIdentify)
                       ''node-1'' initial))) = 2"
proof -
  have l: "index (Labels exampleNode) ''kops.k8s.io/instancegroup'' = []"
    by (simp add: exampleNode_def index_def)
  have p: "ProviderID exampleNode \<noteq> []"
    by (simp add: exampleNode_def)
  note t = identify_calls_of_pass [OF l p]
  note c = example_pass_steps(1) example_pass_steps(2) example_pass_steps(3)
    example_pass_steps(4)
  have i: "identifyCalls (calls initial) = 0"
    by (simp add: initial_def)
  from t [THEN conjunct1, of _ initial]
    t [THEN conjunct2, THEN conjunct2, rule_format, OF conjI [OF c(1) conjI [OF c(2) conjI [OF c(3) c(4)]]]]
    l p i
  show ?thesis by simp
qed

text \<open>C9. A pass that has built the labels calls the identity provider next, for the lifecycle
  class. This is so also for a node that carries the group label, for which group resolution
  made no identity call. When that call fails the pass ends with its error, wrapped by
  \<^verbatim>\<open>getInstanceLifecycle\<close> and by \<^verbatim>\<open>Reconcile\<close>, and nothing is called after it.\<close>

theorem lifecycle_identify_always:
  assumes "do_Get r req s = (Inr node, s1)"
    and "getClusterForNode r node s1 = (Inr cluster, s2)"
    and "getInstanceGroupForNode r node s2 = (Inr ig, s3)"
    and "BuildNodeLabels r cluster ig = Inr labels"
  shows "(\<exists>cs. calls (snd (Reconcile r req s)) = calls s3 @ CallIdentifyNode node # cs)
     \<and> (index (Labels node) ''kops.k8s.io/instancegroup'' \<noteq> [] \<longrightarrow>
          identifyCalls (calls s3) = identifyCalls (calls s))
     \<and> (\<forall>err w. identifier_IdentifyNode r (world s3) node = (Inl err, w) \<longrightarrow>
          Reconcile r req s =
            (Some (Errorf ''unable to get instance lifecycle %s: %v''
                     [AString (Name node),
                      AError (Errorf ''error identifying node %q: %v''
                                [AString (Name node), AError (External err)])]),
             \<lparr>world = w, calls = calls s3 @ [CallIdentifyNode node]\<rparr>))"
proof (intro conjI impI allI)
  show "\<exists>cs. calls (snd (Reconcile r req s)) = calls s3 @ CallIdentifyNode node # cs"
  proof (cases "getInstanceLifecycle r node s3")
    case (Pair res s4)
    from assms Pair getInstanceLifecycle_calls [OF Pair] show ?thesis
      by (cases res)
        (simp_all add: Reconcile_def Reconcile_desired_def Reconcile_diff_calls)
  qed
  show "identifyCalls (calls s3) = identifyCalls (calls s)"
    if "index (Labels node) ''kops.k8s.io/instancegroup'' \<noteq> []"
    using that getInstanceGroupForNode_counts [OF assms(3)] do_Get_calls [OF assms(1)]
      getClusterForNode_calls [OF assms(2)]
    by simp
  show "Reconcile r req s =
            (Some (Errorf ''unable to get instance lifecycle %s: %v''
                     [AString (Name node),
                      AError (Errorf ''error identifying node %q: %v''
                                [AString (Name node), AError (External err)])]),
             \<lparr>world = w, calls = calls s3 @ [CallIdentifyNode node]\<rparr>)"
    if "identifier_IdentifyNode r (world s3) node = (Inl err, w)" for err w
    using that assms
    by (simp add: Reconcile_def Reconcile_desired_def getInstanceLifecycle_def
        do_IdentifyNode_def)
qed

theorem lifecycle_identify_always_witness:
  "index (Labels settledNode) ''kops.k8s.io/instancegroup'' \<noteq> []
   \<and> identifyCalls
        [CallGet ''node-4'',
         CallRead [''memfs://clusters'', ''example.k8s.local'', ''cluster-completed.spec''],
         CallRead [''memfs://clusters'', ''example.k8s.local'', ''instancegroup'', ''nodes'']]
       = identifyCalls (calls initial)
   \<and> identifier_IdentifyNode (exampleReconciler settledNode exampleDecode failingIdentify) 0
       settledNode = (Inl ''RequestLimitExceeded'', 1)
   \<and> Reconcile (exampleReconciler settledNode exampleDecode failingIdentify) ''node-4'' initial =
       (Some (Errorf ''unable to get instance lifecycle %s: %v''
                [AString ''node-4'',
                 AError (Errorf ''error identifying node %q: %v''
                           [AString ''node-4'', AError (External ''RequestLimitExceeded'')])]),
        \<lparr>world = 1,
         calls = [CallGet ''node-4'',
                  CallRead [''memfs://clusters'', ''example.k8s.local'',
                            ''cluster-completed.spec''],
                  CallRead [''memfs://clusters'', ''example.k8s.local'', ''instancegroup'',
                            ''nodes''],
                  CallIdentifyNode settledNode]\<rparr>)"
proof -
  have l: "index (Labels settledNode) ''kops.k8s.io/instancegroup'' \<noteq> []"
    by (simp add: settledNode_def index_def nodesLabels_def addLifecycleLabel_def
        DAList.lookup_update lifecycleLabel_def RoleLabelNode16_def)
  have f: "identifier_IdentifyNode (exampleReconciler settledNode exampleDecode failingIdentify)
      (world \<lparr>world = 0,
       calls = [CallGet ''node-4'',
                CallRead [''memfs://clusters'', ''example.k8s.local'',
                          ''cluster-completed.spec''],
                CallRead [''memfs://clusters'', ''example.k8s.local'', ''instancegroup'',
                          ''nodes'']]\<rparr>)
       settledNode = (Inl ''RequestLimitExceeded'', 1)"
    by (simp add: exampleReconciler_def failingIdentify_def)
  note t = lifecycle_identify_always [OF settled_pass_steps, of failingIdentify]
  from t [THEN conjunct2, THEN conjunct1, rule_format, OF l]
    t [THEN conjunct2, THEN conjunct2, rule_format, OF f] l f
  show ?thesis
    by (simp add: settledNode_def [THEN arg_cong, of Name])
qed

subsection \<open>The short-circuit\<close>

text \<open>C3. When the node already has every desired label with the desired value, and every
  managed key on the node is desired, the update set and the delete set are empty, the pass
  returns \<^verbatim>\<open>nil\<close> in the state the first stage left, and no patch call was made.\<close>

theorem reconcile_idempotent:
  assumes "Reconcile_desired r req s = (Inr (node, D), s1)"
    and "\<forall>k v. DAList.lookup D k = Some v \<longrightarrow> DAList.lookup (Labels node) k = Some v"
    and "\<forall>k \<in> managedKeys. k \<in> dom (DAList.lookup (Labels node)) \<longrightarrow> k \<in> dom (DAList.lookup D)"
  shows "updateLabelsOf (Labels node) D = DAList.empty
     \<and> deleteLabelsOf (Labels node) D = DAList.empty
     \<and> Reconcile r req s = (None, s1)
     \<and> patchCalls (calls s1) = patchCalls (calls s)"
proof -
  have u: "DAList.lookup (updateLabelsOf (Labels node) D) k = None" for k
    using assms(2) by (simp add: updateLabelsOf_lookup split: option.splits)
  have d: "DAList.lookup (deleteLabelsOf (Labels node) D) k = None" for k
    using assms(3) by (auto simp: deleteLabelsOf_lookup domIff)
  from u have ue: "updateLabelsOf (Labels node) D = DAList.empty"
    by (simp add: alist_empty_iff)
  from d have de: "deleteLabelsOf (Labels node) D = DAList.empty"
    by (simp add: alist_empty_iff)
  from u d have "Reconcile_diff r node D s1 = (None, s1)"
    by (simp add: Reconcile_diff_def Let_def size_alist_0)
  with assms(1) have "Reconcile r req s = (None, s1)"
    by (simp add: Reconcile_def)
  with ue de Reconcile_desired_counts [OF assms(1)] show ?thesis
    by simp
qed

lemma settled_lifecycle_step:
  "getInstanceLifecycle (exampleReconciler settledNode exampleDecode exampleIdentify) settledNode
     \<lparr>world = 0,
       calls = [CallGet ''node-4'',
                CallRead [''memfs://clusters'', ''example.k8s.local'',
                          ''cluster-completed.spec''],
                CallRead [''memfs://clusters'', ''example.k8s.local'', ''instancegroup'',
                          ''nodes'']]\<rparr> =
     (Inr ''spot'',
      \<lparr>world = 1,
       calls = [CallGet ''node-4'',
                CallRead [''memfs://clusters'', ''example.k8s.local'',
                          ''cluster-completed.spec''],
                CallRead [''memfs://clusters'', ''example.k8s.local'', ''instancegroup'',
                          ''nodes''],
                CallIdentifyNode settledNode]\<rparr>)"
  by (simp add: exampleReconciler_def exampleIdentify_def getInstanceLifecycle_def
      do_IdentifyNode_def)

theorem reconcile_idempotent_witness:
  "updateLabelsOf (Labels settledNode) (addLifecycleLabel ''spot'' nodesLabels) = DAList.empty
   \<and> deleteLabelsOf (Labels settledNode) (addLifecycleLabel ''spot'' nodesLabels) = DAList.empty
   \<and> Reconcile (exampleReconciler settledNode exampleDecode exampleIdentify) ''node-4'' initial =
       (None,
        \<lparr>world = 1,
         calls = [CallGet ''node-4'',
                  CallRead [''memfs://clusters'', ''example.k8s.local'',
                            ''cluster-completed.spec''],
                  CallRead [''memfs://clusters'', ''example.k8s.local'', ''instancegroup'',
                            ''nodes''],
                  CallIdentifyNode settledNode]\<rparr>)"
proof -
  let ?D = "addLifecycleLabel ''spot'' nodesLabels"
  have L: "Labels settledNode = DAList.update ''team'' ''infra'' ?D"
    by (simp add: settledNode_def)
  have nt: "DAList.lookup ?D ''team'' = None"
    by (simp add: addLifecycleLabel_def nodesLabels_def DAList.lookup_update lifecycleLabel_def
        RoleLabelNode16_def)
  have a: "\<forall>k v. DAList.lookup ?D k = Some v \<longrightarrow> DAList.lookup (Labels settledNode) k = Some v"
    using nt by (auto simp: L DAList.lookup_update)
  have b: "\<forall>k \<in> managedKeys. k \<in> dom (DAList.lookup (Labels settledNode)) \<longrightarrow>
      k \<in> dom (DAList.lookup ?D)"
    by (auto simp: L DAList.lookup_update managedKeys_def RoleLabelMaster16_def
        RoleLabelAPIServer16_def RoleLabelNode16_def RoleLabelControlPlane20_def
        split: if_splits)
  have d: "Reconcile_desired (exampleReconciler settledNode exampleDecode exampleIdentify)
      ''node-4'' initial =
       (Inr (settledNode, ?D),
        \<lparr>world = 1,
         calls = [CallGet ''node-4'',
                  CallRead [''memfs://clusters'', ''example.k8s.local'',
                            ''cluster-completed.spec''],
                  CallRead [''memfs://clusters'', ''example.k8s.local'', ''instancegroup'',
                            ''nodes''],
                  CallIdentifyNode settledNode]\<rparr>)"
    by (simp add: Reconcile_desired_def settled_pass_steps settled_lifecycle_step)
  from reconcile_idempotent [OF d a b] show ?thesis
    by simp
qed

subsection \<open>Decode errors\<close>

lemma loadCluster_decode_error:
  assumes "do_Read r p s = (Inr b, s1)"
    and "kopscodecs_Decode r b = Inl err \<or>
         (\<exists>obj. kopscodecs_Decode r b = Inr obj \<and> (\<forall>c. obj \<noteq> ClusterObject c))"
  shows "\<exists>e. loadCluster r p s = (Inl e, s1) \<and> p \<in> set (pathsOf e)"
  using assms
  by (auto simp: loadCluster_def split: Object.splits)

lemma cluster_decode_error_reported:
  assumes "do_Get r req s = (Inr node, s1)"
    and "do_Read r (Join (configBase r) [PathClusterCompleted]) s1 = (Inr b, s2)"
    and "kopscodecs_Decode r b = Inl err \<or>
         (\<exists>obj. kopscodecs_Decode r b = Inr obj \<and> (\<forall>c. obj \<noteq> ClusterObject c))"
  shows "\<exists>e. Reconcile r req s = (Some e, s2) \<and>
             Join (configBase r) [PathClusterCompleted] \<in> set (pathsOf e) \<and>
             patchCalls (calls s2) = patchCalls (calls s)"
proof -
  from loadCluster_decode_error [OF assms(2) assms(3)] obtain e
    where e: "loadCluster r (Join (configBase r) [PathClusterCompleted]) s1 = (Inl e, s2)"
      and p: "Join (configBase r) [PathClusterCompleted] \<in> set (pathsOf e)"
    by blast
  from e have "getClusterForNode r node s1 = (Inl e, s2)"
    by (simp add: getClusterForNode_def Let_def)
  with assms(1) have "Reconcile r req s =
      (Some (Errorf ''unable to load cluster object for node %s: %v''
               [AString (Name node), AError e]), s2)"
    by (simp add: Reconcile_def Reconcile_desired_def)
  moreover from do_Get_calls [OF assms(1)] do_Read_calls [OF assms(2)]
  have "patchCalls (calls s2) = patchCalls (calls s)"
    by simp
  ultimately show ?thesis
    using p by simp
qed

lemma loadNamedInstanceGroup_parse_error:
  assumes "do_Read r (Join (configBase r) [''instancegroup'', name]) s = (Inr b, s1)"
    and "kopscodecs_Decode r b = Inl err"
  shows "\<exists>e. loadNamedInstanceGroup r name s = (Inl e, s1) \<and>
             Join (configBase r) [''instancegroup'', name] \<in> set (pathsOf e)"
  using assms
  by (simp add: loadNamedInstanceGroup_def Let_def)

lemma loadNamedInstanceGroup_mismatch:
  assumes "do_Read r (Join (configBase r) [''instancegroup'', name]) s = (Inr b, s1)"
    and "kopscodecs_Decode r b = Inr obj" and "\<forall>g. obj \<noteq> InstanceGroupObject g"
  shows "loadNamedInstanceGroup r name s =
           (Inl (Errorf ''unexpected type, expected InstanceGroup, got %T'' [AType (typeOf obj)]),
            s1)"
  using assms
  by (auto simp: loadNamedInstanceGroup_def Let_def split: Object.splits)

text \<open>C8, at the input where it fails: the store holds a cluster manifest at the path of the
  group \<open>nodes\<close>. The pass aborts before any patch, but the error it reports names the node
  and the decoded type only; it carries no path. (The errors of \<^verbatim>\<open>loadCluster\<close> and the
  parse error of \<^verbatim>\<open>loadNamedInstanceGroup\<close> do carry the path, as the lemmas above show.)\<close>

theorem group_type_mismatch_omits_path:
  "Reconcile (exampleReconciler exampleNode clusterOnlyDecode exampleIdentify) ''node-1'' initial =
     (Some (Errorf ''unable to load instance group object for node %s: %v''
              [AString ''node-1'',
               AError (Errorf ''unexpected type, expected InstanceGroup, got %T''
                         [AType ''*kops.Cluster''])]),
      \<lparr>world = 1,
       calls = [CallGet ''node-1'',
                CallRead [''memfs://clusters'', ''example.k8s.local'',
                          ''cluster-completed.spec''],
                CallIdentifyNode exampleNode,
                CallRead [''memfs://clusters'', ''example.k8s.local'', ''instancegroup'',
                          ''nodes'']]\<rparr>)
   \<and> pathsOf (Errorf ''unable to load instance group object for node %s: %v''
              [AString ''node-1'',
               AError (Errorf ''unexpected type, expected InstanceGroup, got %T''
                         [AType ''*kops.Cluster''])] :: string error) = []"
  by (simp add: exampleReconciler_def initial_def exampleLabels_def nodesLabels_def
      clusterOnlyDecode_def exampleIdentify_def do_Get_def do_Read_def do_IdentifyNode_def
      loadCluster_def loadNamedInstanceGroup_def getClusterForNode_def
      getInstanceGroupForNode_def index_def Join_def Let_def PathClusterCompleted_def
      Reconcile_def Reconcile_desired_def
      exampleNode_def [THEN arg_cong, of Name] exampleNode_def [THEN arg_cong, of Labels]
      exampleNode_def [THEN arg_cong, of ProviderID])

end
